theory Spec2Isabelle
  imports Main "HOL-Library.Sublist" "HOL-Library.Char_ord" "HOL-Library.List_Lexorder"
begin

section \<open>Data model of the webhook bridge (main.go)\<close>

text \<open>
  Go strings are byte sequences: \<open>len\<close> counts bytes and \<open>s[:n]\<close> slices bytes.
  They are modelled as \<^typ>\<open>string\<close> (a list of 8-bit characters).
\<close>

subsection \<open>ForgejoWebhook: the incoming webhook\<close>

record repository =
  Repository_Name :: string
  Repository_FullName :: string

record author =
  Author_Name :: string
  Author_Email :: string
  Author_Username :: string

record head_commit =
  HeadCommit_ID :: string
  HeadCommit_Message :: string
  HeadCommit_Author :: author

record pusher =
  Pusher_Username :: string

record ForgejoWebhook =
  Ref :: string
  Repository :: repository
  HeadCommit :: head_commit
  Pusher :: pusher

subsection \<open>BuildkitePayload: the payload sent to Buildkite\<close>

record BuildkiteAuthor =
  Name :: string
  Email :: string

text \<open>
  \<open>Author\<close> is a pointer in the source (\<open>None\<close> is nil); \<open>Env\<close> is a
  \<open>map[string]string\<close>, kept as the association list of its literal.
\<close>

record BuildkitePayload =
  Commit :: string
  Branch :: string
  Message :: string
  Author :: "BuildkiteAuthor option"
  Env :: "(string \<times> string) list"

subsection \<open>JSON documents\<close>

text \<open>
  What \<open>encoding/json\<close> writes is kept as the document tree, each string with the
  contents a reader of the document gets. Quoting and escaping are a lossless
  rendering of these contents and are not modelled; the replacement of bytes that are
  not valid UTF-8 changes the contents and is modelled by \<open>json_text\<close> below.
\<close>

datatype json = JString string | JObject "(string \<times> json) list"

fun members :: "json \<Rightarrow> string \<rightharpoonup> json" where
  "members (JObject kvs) = map_of kvs"
| "members (JString s) = Map.empty"

text \<open>
  \<open>utf8.DecodeRuneInString\<close> as far as the encoder uses it: the number of bytes of the
  well-formed UTF-8 sequence at the head of the string, and 0 where the library gives
  \<open>RuneError\<close> with size 1 (a byte that starts no sequence, a second byte outside the
  range its first byte accepts, a third or fourth byte that is no continuation byte, or
  too few bytes).
\<close>

definition between :: "nat \<Rightarrow> nat \<Rightarrow> char \<Rightarrow> bool" where
  "between lo hi c = (lo \<le> of_char c \<and> of_char c \<le> hi)"

fun rune_size :: "string \<Rightarrow> nat" where
  "rune_size [] = 0"
| "rune_size (c # cs) =
     (let b = (of_char c :: nat)
      in if b < 128 then 1
         else if 194 \<le> b \<and> b \<le> 223 then
           (case cs of
              c1 # _ \<Rightarrow> if between 128 191 c1 then 2 else 0
            | _ \<Rightarrow> 0)
         else if 224 \<le> b \<and> b \<le> 239 then
           (case cs of
              c1 # c2 # _ \<Rightarrow>
                if between (if b = 224 then 160 else 128) (if b = 237 then 159 else 191) c1
                   \<and> between 128 191 c2
                then 3 else 0
            | _ \<Rightarrow> 0)
         else if 240 \<le> b \<and> b \<le> 244 then
           (case cs of
              c1 # c2 # c3 # _ \<Rightarrow>
                if between (if b = 240 then 144 else 128) (if b = 244 then 143 else 191) c1
                   \<and> between 128 191 c2 \<and> between 128 191 c3
                then 4 else 0
            | _ \<Rightarrow> 0)
         else 0)"

text \<open>
  The loop of the encoder over a string: a well-formed sequence is copied (the first
  argument counts the bytes of it still to copy), and each byte that is not part of one
  is replaced by U+FFFD, here in UTF-8 (\<open>EF BF BD\<close>).
\<close>

fun replace_invalid :: "nat \<Rightarrow> string \<Rightarrow> string" where
  "replace_invalid k [] = []"
| "replace_invalid (Suc k) (c # cs) = c # replace_invalid k cs"
| "replace_invalid 0 (c # cs) =
     (if rune_size (c # cs) = 0
      then [CHR 0xEF, CHR 0xBF, CHR 0xBD] @ replace_invalid 0 cs
      else c # replace_invalid (rune_size (c # cs) - 1) cs)"

definition json_text :: "string \<Rightarrow> string" where
  "json_text s = replace_invalid 0 s"

text \<open>A \<open>map[string]string\<close> is written as an object with its keys sorted.\<close>

definition encode_map :: "(string \<times> string) list \<Rightarrow> json" where
  "encode_map m =
     JObject (map (\<lambda>(k, v). (json_text k, JString (json_text v))) (sort_key fst m))"

text \<open>
  \<open>json.Marshal\<close> of a \<open>BuildkitePayload\<close>: the fields in declaration order under
  their tags; \<open>omitempty\<close> drops a nil pointer and a map of length 0. Marshalling a
  struct of strings cannot fail.
\<close>

definition Marshal :: "BuildkitePayload \<Rightarrow> json" where
  "Marshal p = JObject (
     [(''commit'', JString (json_text (Commit p))),
      (''branch'', JString (json_text (Branch p))),
      (''message'', JString (json_text (Message p)))]
     @ (case Author p of
          None \<Rightarrow> []
        | Some a \<Rightarrow> [(''author'', JObject [(''name'', JString (json_text (Name a))),
                                         (''email'', JString (json_text (Email a)))])])
     @ (if length (Env p) = 0 then [] else [(''env'', encode_map (Env p))]))"

subsection \<open>Configuration, requests, replies\<close>

text \<open>The package-level variables set once by \<open>main\<close>.\<close>

record config =
  buildkiteOrg :: string
  buildkiteToken :: string
  port :: string
  logVerbose :: bool

text \<open>
  The inbound \<open>*http.Request\<close> as far as the handler reads it. \<open>Body\<close> is what
  \<open>io.ReadAll(r.Body)\<close> gives: \<open>Inl\<close> a read error, \<open>Inr\<close> the bytes.
\<close>

record Request =
  Method :: string
  URL_Path :: string
  Body :: "string + string"

text \<open>The outbound request handed to \<open>client.Do\<close>, and the downstream's response.\<close>

record http_request =
  req_Method :: string
  req_URL :: string
  req_Header :: "(string \<times> string) list"
  req_Body :: json

record http_response =
  StatusCode :: int
  resp_Body :: string

text \<open>What the handler writes to its \<open>http.ResponseWriter\<close>.\<close>

datatype content = Text string | Document json

record reply =
  reply_Code :: int
  reply_Header :: "(string \<times> string) list"
  reply_Body :: content

text \<open>
  The library and the network, as far as the handler calls them:
  \<open>json.Unmarshal\<close> into a \<open>ForgejoWebhook\<close> (\<open>Inl\<close> its error text),
  the URL check of \<open>http.NewRequest\<close> (\<open>Some\<close> its error text), and
  \<open>client.Do\<close> (\<open>Inl\<close> the transport error text).
\<close>

record system =
  json_Unmarshal :: "string \<Rightarrow> string + ForgejoWebhook"
  url_Parse :: "string \<Rightarrow> string option"
  client_Do :: "http_request \<Rightarrow> string + http_response"

text \<open>One constructor for each \<open>log.Printf\<close> of the two functions, with its arguments.\<close>

datatype log_line =
    ErrorReadingBody string
  | ReceivedPayload string
  | ErrorParsingWebhook string
  | WebhookLine string string string string
  | FailedToTriggerBuild string
  | DebugOrgPipeline string string
  | DebugURL string
  | BuildkitePayloadLine json
  | BuildkiteResponse string
  | BuildTriggered string string string string

datatype event = Log log_line | Outbound http_request

text \<open>A Go call either returns or panics (here: a slice bound out of range).\<close>

datatype 'a run = Panics string | Returns 'a

section \<open>Helpers from the standard library\<close>

definition HasPrefix :: "string \<Rightarrow> string \<Rightarrow> bool" where
  "HasPrefix s p = (length p \<le> length s \<and> take (length p) s = p)"

definition TrimPrefix :: "string \<Rightarrow> string \<Rightarrow> string" where
  "TrimPrefix s p = (if HasPrefix s p then drop (length p) s else s)"

text \<open>\<open>%d\<close> of \<open>fmt\<close>: decimal digits, with a minus sign for a negative number.\<close>

fun digits :: "nat \<Rightarrow> string" where
  "digits n = (if n < 10 then [''0123456789'' ! n]
               else digits (n div 10) @ [''0123456789'' ! (n mod 10)])"

definition itoa :: "int \<Rightarrow> string" where
  "itoa i = (if i < 0 then ''-'' @ digits (nat (- i)) else digits (nat i))"

text \<open>
  \<open>http.Error\<close>: plain-text content type, the \<open>nosniff\<close> header, the status code and
  the message followed by a newline.
\<close>

definition http_Error :: "string \<Rightarrow> int \<Rightarrow> reply" where
  "http_Error msg code =
     \<lparr>reply_Code = code,
      reply_Header = [(''Content-Type'', ''text/plain; charset=utf-8''),
                      (''X-Content-Type-Options'', ''nosniff'')],
      reply_Body = Text (msg @ [CHR 0x0A])\<rparr>"

section \<open>triggerBuild\<close>

definition payload :: "string \<Rightarrow> string \<Rightarrow> string \<Rightarrow> ForgejoWebhook \<Rightarrow> BuildkitePayload" where
  "payload branch commit message webhook =
     \<lparr>Commit = commit,
      Branch = branch,
      Message = message,
      Author = Some \<lparr>Name = Author_Name (HeadCommit_Author (HeadCommit webhook)),
                     Email = Author_Email (HeadCommit_Author (HeadCommit webhook))\<rparr>,
      Env = [(''FORGEJO_PUSHER'', Pusher_Username (Pusher webhook)),
             (''FORGEJO_REPO'', Repository_FullName (Repository webhook)),
             (''FORGEJO_REPO_NAME'', Repository_Name (Repository webhook))]\<rparr>"

definition build_url :: "config \<Rightarrow> string \<Rightarrow> string" where
  "build_url cfg pipeline =
     ''https://api.buildkite.com/v2/organizations/'' @ buildkiteOrg cfg
       @ ''/pipelines/'' @ pipeline @ ''/builds''"

text \<open>The request after \<open>http.NewRequest\<close> and the two \<open>Header.Set\<close> calls.\<close>

definition outbound_request :: "config \<Rightarrow> string \<Rightarrow> json \<Rightarrow> http_request" where
  "outbound_request cfg url jsonData =
     \<lparr>req_Method = ''POST'',
      req_URL = url,
      req_Header = [(''Authorization'', ''Bearer '' @ buildkiteToken cfg),
                    (''Content-Type'', ''application/json'')],
      req_Body = jsonData\<rparr>"

text \<open>
  The result is the returned \<open>error\<close> (\<open>None\<close> is nil) or a panic, with the log lines
  and outbound calls made on the way. \<open>commit[:7]\<close> in the last log line panics when
  the commit has fewer than 7 bytes, with the runtime's message for a slice bound.
\<close>

definition triggerBuild ::
  "config \<Rightarrow> system \<Rightarrow> string \<Rightarrow> string \<Rightarrow> string \<Rightarrow> string \<Rightarrow> ForgejoWebhook
     \<Rightarrow> string option run \<times> event list" where
  "triggerBuild cfg sys pipeline branch commit message webhook =
    (let url = build_url cfg pipeline;
         ev1 = (if logVerbose cfg
                then [Log (DebugOrgPipeline (buildkiteOrg cfg) pipeline), Log (DebugURL url)]
                else []);
         jsonData = Marshal (payload branch commit message webhook);
         ev2 = ev1 @ (if logVerbose cfg then [Log (BuildkitePayloadLine jsonData)] else [])
     in case url_Parse sys url of
          Some err \<Rightarrow> (Returns (Some (''failed to create request: '' @ err)), ev2)
        | None \<Rightarrow>
           (let req = outbound_request cfg url jsonData;
                ev3 = ev2 @ [Outbound req]
            in case client_Do sys req of
                 Inl err \<Rightarrow> (Returns (Some (''request failed: '' @ err)), ev3)
               | Inr resp \<Rightarrow>
                  (let respBody = resp_Body resp
                   in if StatusCode resp \<noteq> 201 \<and> StatusCode resp \<noteq> 200
                      then (Returns (Some (''buildkite API returned '' @ itoa (StatusCode resp)
                                             @ '': '' @ respBody)), ev3)
                      else
                       (let ev4 = ev3 @ (if logVerbose cfg then [Log (BuildkiteResponse respBody)] else [])
                        in if length commit < 7
                           then (Panics (''runtime error: slice bounds out of range [:7] with length ''
                                           @ itoa (int (length commit))), ev4)
                           else (Returns None,
                                 ev4 @ [Log (BuildTriggered (buildkiteOrg cfg) pipeline branch
                                               (take 7 commit))])))))"

section \<open>webhookHandler\<close>

definition branch :: "ForgejoWebhook \<Rightarrow> string" where
  "branch webhook = TrimPrefix (Ref webhook) ''refs/heads/''"

definition commitShort :: "ForgejoWebhook \<Rightarrow> string" where
  "commitShort webhook =
     (if length (HeadCommit_ID (HeadCommit webhook)) > 7
      then take 7 (HeadCommit_ID (HeadCommit webhook))
      else HeadCommit_ID (HeadCommit webhook))"

definition success_reply :: "string \<Rightarrow> ForgejoWebhook \<Rightarrow> reply" where
  "success_reply path webhook =
     \<lparr>reply_Code = 200,
      reply_Header = [(''Content-Type'', ''application/json'')],
      reply_Body = Document (encode_map
        [(''status'', ''success''),
         (''message'', ''Build triggered successfully''),
         (''pipeline'', path),
         (''branch'', branch webhook),
         (''commit'', commitShort webhook)])\<rparr>"

text \<open>
  The result is the reply written, or the panic that leaves the handler (the server
  then closes the connection without a reply), with the log lines and outbound calls.
\<close>

definition webhookHandler :: "config \<Rightarrow> system \<Rightarrow> Request \<Rightarrow> reply run \<times> event list" where
  "webhookHandler cfg sys r =
    (if Method r \<noteq> ''POST'' then (Returns (http_Error ''Method not allowed'' 405), [])
     else
      (let path = TrimPrefix (URL_Path r) ''/webhook/''
       in if path = [] \<or> path = ''webhook/''
          then (Returns (http_Error ''Pipeline slug required in URL: /webhook/<pipeline-slug>'' 400), [])
          else
           (case Body r of
              Inl err \<Rightarrow> (Returns (http_Error ''Bad request'' 400), [Log (ErrorReadingBody err)])
            | Inr body \<Rightarrow>
               (let ev1 = (if logVerbose cfg then [Log (ReceivedPayload body)] else [])
                in case json_Unmarshal sys body of
                     Inl err \<Rightarrow> (Returns (http_Error ''Bad request: invalid JSON'' 400),
                                 ev1 @ [Log (ErrorParsingWebhook err)])
                   | Inr webhook \<Rightarrow>
                      (let ev2 = ev1 @ [Log (WebhookLine (Repository_FullName (Repository webhook))
                                               (branch webhook) (commitShort webhook)
                                               (Pusher_Username (Pusher webhook)))]
                       in case triggerBuild cfg sys path (branch webhook)
                                 (HeadCommit_ID (HeadCommit webhook))
                                 (HeadCommit_Message (HeadCommit webhook)) webhook of
                            (Panics msg, ev3) \<Rightarrow> (Panics msg, ev2 @ ev3)
                          | (Returns (Some err), ev3) \<Rightarrow>
                              (Returns (http_Error (''Failed to trigger build: '' @ err) 500),
                               ev2 @ ev3 @ [Log (FailedToTriggerBuild err)])
                          | (Returns None, ev3) \<Rightarrow>
                              (Returns (success_reply path webhook), ev2 @ ev3))))))"

section \<open>Observations and example inputs\<close>

text \<open>The outbound calls among the events of a run, in order.\<close>

fun outbound_calls :: "event list \<Rightarrow> http_request list" where
  "outbound_calls [] = []"
| "outbound_calls (Outbound req # es) = req # outbound_calls es"
| "outbound_calls (Log l # es) = outbound_calls es"

text \<open>
  The push event of the README's curl test (\<open>refs/heads/main\<close>, repository
  \<open>user/my-repo\<close>, pusher \<open>john\<close>), with the head commit id left open.
\<close>

definition example_webhook :: "string \<Rightarrow> ForgejoWebhook" where
  "example_webhook commit =
     \<lparr>Ref = ''refs/heads/main'',
      Repository = \<lparr>Repository_Name = ''my-repo'', Repository_FullName = ''user/my-repo''\<rparr>,
      HeadCommit = \<lparr>HeadCommit_ID = commit, HeadCommit_Message = ''Test commit'',
                    HeadCommit_Author = \<lparr>Author_Name = ''John Doe'',
                                          Author_Email = ''john@example.com'',
                                          Author_Username = ''john''\<rparr>\<rparr>,
      Pusher = \<lparr>Pusher_Username = ''john''\<rparr>\<rparr>"

text \<open>
  The zero value that \<open>var webhook ForgejoWebhook\<close> declares; a field the body omits
  keeps it.
\<close>

definition zero_webhook :: ForgejoWebhook where
  "zero_webhook =
     \<lparr>Ref = [],
      Repository = \<lparr>Repository_Name = [], Repository_FullName = []\<rparr>,
      HeadCommit = \<lparr>HeadCommit_ID = [], HeadCommit_Message = [],
                    HeadCommit_Author = \<lparr>Author_Name = [], Author_Email = [],
                                          Author_Username = []\<rparr>\<rparr>,
      Pusher = \<lparr>Pusher_Username = []\<rparr>\<rparr>"

text \<open>
  A test double: the decoder gives \<open>decoded\<close> for every body, every URL is accepted,
  and the downstream gives \<open>answer\<close> to every request.
\<close>

definition example_system :: "string + ForgejoWebhook \<Rightarrow> string + http_response \<Rightarrow> system" where
  "example_system decoded answer =
     \<lparr>json_Unmarshal = (\<lambda>body. decoded),
      url_Parse = (\<lambda>url. None),
      client_Do = (\<lambda>req. answer)\<rparr>"

definition example_config :: config where
  "example_config =
     \<lparr>buildkiteOrg = ''my-org'', buildkiteToken = ''bkua_secret'', port = ''8080'',
      logVerbose = False\<rparr>"

definition example_request :: "string \<Rightarrow> string \<Rightarrow> Request" where
  "example_request m p = \<lparr>Method = m, URL_Path = p, Body = Inr ''{}''\<rparr>"

text \<open>The member \<open>k\<close> of the JSON document of a reply, if the reply has one.\<close>

definition reply_member :: "reply \<Rightarrow> string \<Rightarrow> json option" where
  "reply_member rep k = (case reply_Body rep of Document d \<Rightarrow> members d k | Text t \<Rightarrow> None)"

text \<open>
  Characters as the specification counts them, to be compared with the bytes the code
  counts: a character of a UTF-8 string is a byte that is no continuation byte together
  with the continuation bytes after it. \<open>first_characters n s\<close> is the first \<open>n\<close>
  characters of \<open>s\<close> and \<open>character_count s\<close> their number. The program uses neither.
\<close>

fun first_characters :: "nat \<Rightarrow> string \<Rightarrow> string" where
  "first_characters n [] = []"
| "first_characters n (c # cs) =
     (if between 128 191 c then c # first_characters n cs
      else (case n of 0 \<Rightarrow> [] | Suc k \<Rightarrow> c # first_characters k cs))"

definition character_count :: "string \<Rightarrow> nat" where
  "character_count s = length (filter (\<lambda>c. \<not> between 128 191 c) s)"

text \<open>Seven times the letter e with an acute accent (U+00E9, \<open>C3 A9\<close>): 14 bytes.\<close>

definition seven_e_acute :: string where
  "seven_e_acute =
     [CHR 0xC3, CHR 0xA9, CHR 0xC3, CHR 0xA9, CHR 0xC3, CHR 0xA9, CHR 0xC3, CHR 0xA9,
      CHR 0xC3, CHR 0xA9, CHR 0xC3, CHR 0xA9, CHR 0xC3, CHR 0xA9]"

text \<open>
  An event without the \<open>Authorization\<close> header of its outbound request: what is left
  is what a run shows apart from that header.
\<close>

fun redact :: "event \<Rightarrow> event" where
  "redact (Outbound req) =
     Outbound (req\<lparr>req_Header := filter (\<lambda>(k, v). k \<noteq> ''Authorization'') (req_Header req)\<rparr>)"
| "redact (Log l) = Log l"

text \<open>
  The body \<open>{"message":"no commit found"}\<close>, as a downstream sends it with status 422
  for a commit it does not know.
\<close>

definition no_commit_found :: string where
  "no_commit_found = ''{'' @ [CHR 0x22] @ ''message'' @ [CHR 0x22] @ '':'' @ [CHR 0x22]
      @ ''no commit found'' @ [CHR 0x22] @ ''}''"

text \<open>
  The equation of \<open>digits\<close> unfolds for ever on a number that is not a numeral; it is
  used by name where a number is printed.
\<close>

declare digits.simps [simp del]

section \<open>Facts about the helpers\<close>

lemma HasPrefix_iff_prefix: "HasPrefix s p \<longleftrightarrow> prefix p s"
proof
  assume "HasPrefix s p"
  then have "take (length p) s = p" by (simp add: HasPrefix_def)
  then have "s = p @ drop (length p) s" by (metis append_take_drop_id)
  then show "prefix p s" by (rule prefixI)
next
  assume "prefix p s"
  then obtain rest where "s = p @ rest" by (auto simp: prefix_def)
  then show "HasPrefix s p" by (simp add: HasPrefix_def)
qed

lemma TrimPrefix_append: "TrimPrefix (p @ rest) p = rest"
  by (simp add: TrimPrefix_def HasPrefix_def)

lemma TrimPrefix_no_prefix: "\<not> prefix p s \<Longrightarrow> TrimPrefix s p = s"
  by (simp add: TrimPrefix_def HasPrefix_iff_prefix)

lemma replace_invalid_ascii:
  "\<forall>c \<in> set s. of_char c < (128::nat) \<Longrightarrow> replace_invalid 0 s = s"
  by (induction s) simp_all

lemma json_text_ascii:
  "\<forall>c \<in> set s. of_char c < (128::nat) \<Longrightarrow> json_text s = s"
  by (simp add: json_text_def replace_invalid_ascii)

lemma first_characters_ascii:
  "\<forall>c \<in> set s. of_char c < (128::nat) \<Longrightarrow> first_characters n s = take n s"
  by (induction s arbitrary: n) (auto simp: between_def split: nat.splits)

lemma outbound_calls_append:
  "outbound_calls (xs @ ys) = outbound_calls xs @ outbound_calls ys"
  by (induction xs rule: outbound_calls.induct) simp_all

section \<open>The branch\<close>

text \<open>
  Claim C4. A ref that begins with \<open>refs/heads/\<close> gives the branch that is the ref
  without this prefix; any other ref is the branch as it is. \<open>branch\<close> is a total
  function, so no ref raises an error.
\<close>

theorem branch_strips_prefix:
  "(Ref w = ''refs/heads/'' @ rest \<longrightarrow> branch w = rest) \<and>
   (\<not> prefix ''refs/heads/'' (Ref w) \<longrightarrow> branch w = Ref w)"
proof (intro conjI impI)
  assume "Ref w = ''refs/heads/'' @ rest"
  then show "branch w = rest"
    by (simp only: branch_def TrimPrefix_append)
next
  assume "\<not> prefix ''refs/heads/'' (Ref w)"
  then show "branch w = Ref w"
    unfolding branch_def by (rule TrimPrefix_no_prefix)
qed

theorem branch_strips_prefix_witness:
  "Ref (example_webhook ''abc123def456'') = ''refs/heads/'' @ ''main''
   \<and> branch (example_webhook ''abc123def456'') = ''main''
   \<and> \<not> prefix ''refs/heads/'' (Ref ((example_webhook ''abc123def456'')\<lparr>Ref := ''refs/tags/v1.0''\<rparr>))
   \<and> branch ((example_webhook ''abc123def456'')\<lparr>Ref := ''refs/tags/v1.0''\<rparr>) = ''refs/tags/v1.0''"
  using branch_strips_prefix [of "example_webhook ''abc123def456''" "''main''"]
    branch_strips_prefix [of "(example_webhook ''abc123def456'')\<lparr>Ref := ''refs/tags/v1.0''\<rparr>" "[]"]
  by (simp add: example_webhook_def)

section \<open>Requests that are refused before any decoding\<close>

text \<open>
  Claim C8. A request whose method is not POST gets status 405 with the plain-text
  line \<open>Method not allowed\<close>, whatever its path. The whole result is this reply and no
  event: it does not depend on the body or on the decoder, and no outbound call is
  made.
\<close>

theorem non_post_method_not_allowed:
  assumes "Method r \<noteq> ''POST''"
  shows "webhookHandler cfg sys r =
     (Returns \<lparr>reply_Code = 405,
               reply_Header = [(''Content-Type'', ''text/plain; charset=utf-8''),
                               (''X-Content-Type-Options'', ''nosniff'')],
               reply_Body = Text (''Method not allowed'' @ [CHR 0x0A])\<rparr>, [])"
  using assms by (simp add: webhookHandler_def http_Error_def)

theorem non_post_method_not_allowed_witness:
  "Method (example_request ''GET'' ''/webhook/my-pipeline'') \<noteq> ''POST''
   \<and> webhookHandler example_config
        (example_system (Inr (example_webhook ''abc123def456''))
           (Inr \<lparr>StatusCode = 201, resp_Body = ''{}''\<rparr>))
        (example_request ''GET'' ''/webhook/my-pipeline'') =
     (Returns \<lparr>reply_Code = 405,
               reply_Header = [(''Content-Type'', ''text/plain; charset=utf-8''),
                               (''X-Content-Type-Options'', ''nosniff'')],
               reply_Body = Text (''Method not allowed'' @ [CHR 0x0A])\<rparr>, [])"
proof -
  have m: "Method (example_request ''GET'' ''/webhook/my-pipeline'') \<noteq> ''POST''"
    by (simp add: example_request_def)
  show ?thesis
    using m non_post_method_not_allowed [OF m] by simp
qed

section \<open>Malformed bodies\<close>

text \<open>
  Claim C6. A POST to \<open>/webhook/<id>\<close> whose body the JSON decoder rejects gets
  status 400, and the run makes no outbound call.
\<close>

theorem invalid_json_bad_request:
  assumes "Method r = ''POST''" and "URL_Path r = ''/webhook/'' @ pid"
    and "Body r = Inr body" and "json_Unmarshal sys body = Inl err"
  shows "(\<exists>rep. fst (webhookHandler cfg sys r) = Returns rep \<and> reply_Code rep = 400)
      \<and> outbound_calls (snd (webhookHandler cfg sys r)) = []"
proof -
  have path: "TrimPrefix (URL_Path r) ''/webhook/'' = pid"
    by (simp only: assms(2) TrimPrefix_append)
  show ?thesis
    using assms(1,3,4) by (simp add: webhookHandler_def http_Error_def path)
qed

theorem invalid_json_bad_request_witness:
  "fst (webhookHandler example_config
          (example_system (Inl ''unexpected end of JSON input'')
             (Inr \<lparr>StatusCode = 201, resp_Body = ''{}''\<rparr>))
          ((example_request ''POST'' ''/webhook/my-pipeline'')\<lparr>Body := Inr ''{''\<rparr>))
     = Returns (http_Error ''Bad request: invalid JSON'' 400)
   \<and> outbound_calls (snd (webhookHandler example_config
          (example_system (Inl ''unexpected end of JSON input'')
             (Inr \<lparr>StatusCode = 201, resp_Body = ''{}''\<rparr>))
          ((example_request ''POST'' ''/webhook/my-pipeline'')\<lparr>Body := Inr ''{''\<rparr>))) = []"
  using invalid_json_bad_request
    [of "(example_request ''POST'' ''/webhook/my-pipeline'')\<lparr>Body := Inr ''{''\<rparr>"
        "''my-pipeline''" "''{''"
        "example_system (Inl ''unexpected end of JSON input'')
           (Inr \<lparr>StatusCode = 201, resp_Body = ''{}''\<rparr>)"
        "''unexpected end of JSON input''" example_config]
  by (simp add: example_request_def example_system_def example_config_def
      webhookHandler_def TrimPrefix_def HasPrefix_def)

section \<open>The steps of triggerBuild and of the handler\<close>

lemma success_document:
  "encode_map
        [(''status'', ''success''),
         (''message'', ''Build triggered successfully''),
         (''pipeline'', path),
         (''branch'', b),
         (''commit'', c)] = JObject
        [(''branch'', JString (json_text b)),
         (''commit'', JString (json_text c)),
         (''message'', JString ''Build triggered successfully''),
         (''pipeline'', JString (json_text path)),
         (''status'', JString ''success'')]"
  by (simp add: encode_map_def json_text_ascii)

lemma triggerBuild_bad_url:
  "url_Parse sys (build_url cfg pipeline) = Some err \<Longrightarrow>
   fst (triggerBuild cfg sys pipeline b c m w) = Returns (Some (''failed to create request: '' @ err))
   \<and> outbound_calls (snd (triggerBuild cfg sys pipeline b c m w)) = []"
  by (simp add: triggerBuild_def Let_def outbound_calls_append)

lemma triggerBuild_transport_error:
  "url_Parse sys (build_url cfg pipeline) = None \<Longrightarrow>
   client_Do sys (outbound_request cfg (build_url cfg pipeline) (Marshal (payload b c m w))) = Inl err \<Longrightarrow>
   fst (triggerBuild cfg sys pipeline b c m w) = Returns (Some (''request failed: '' @ err))"
  by (simp add: triggerBuild_def Let_def)

lemma triggerBuild_bad_status:
  "url_Parse sys (build_url cfg pipeline) = None \<Longrightarrow>
   client_Do sys (outbound_request cfg (build_url cfg pipeline) (Marshal (payload b c m w))) = Inr resp \<Longrightarrow>
   StatusCode resp \<noteq> 200 \<Longrightarrow> StatusCode resp \<noteq> 201 \<Longrightarrow>
   fst (triggerBuild cfg sys pipeline b c m w) =
     Returns (Some (''buildkite API returned '' @ itoa (StatusCode resp) @ '': '' @ resp_Body resp))"
  by (simp add: triggerBuild_def Let_def)

lemma triggerBuild_good_status:
  "url_Parse sys (build_url cfg pipeline) = None \<Longrightarrow>
   client_Do sys (outbound_request cfg (build_url cfg pipeline) (Marshal (payload b c m w))) = Inr resp \<Longrightarrow>
   StatusCode resp = 200 \<or> StatusCode resp = 201 \<Longrightarrow>
   fst (triggerBuild cfg sys pipeline b c m w) =
     (if length c < 7
      then Panics (''runtime error: slice bounds out of range [:7] with length ''
                     @ itoa (int (length c)))
      else Returns None)"
  by (auto simp add: triggerBuild_def Let_def)

lemma triggerBuild_calls:
  "url_Parse sys (build_url cfg pipeline) = None \<Longrightarrow>
   outbound_calls (snd (triggerBuild cfg sys pipeline b c m w)) =
     [outbound_request cfg (build_url cfg pipeline) (Marshal (payload b c m w))]"
  by (auto simp add: triggerBuild_def Let_def outbound_calls_append split: sum.splits)

text \<open>The handler once the request is a POST with a pipeline and a decodable body.\<close>

lemma webhookHandler_decoded:
  assumes "Method r = ''POST''" and "TrimPrefix (URL_Path r) ''/webhook/'' = pipeline"
    and "pipeline \<noteq> []" and "pipeline \<noteq> ''webhook/''"
    and "Body r = Inr body" and "json_Unmarshal sys body = Inr w"
  shows "fst (webhookHandler cfg sys r) =
     (case fst (triggerBuild cfg sys pipeline (branch w) (HeadCommit_ID (HeadCommit w))
                  (HeadCommit_Message (HeadCommit w)) w) of
        Panics msg \<Rightarrow> Panics msg
      | Returns (Some err) \<Rightarrow> Returns (http_Error (''Failed to trigger build: '' @ err) 500)
      | Returns None \<Rightarrow> Returns (success_reply pipeline w))"
    and "outbound_calls (snd (webhookHandler cfg sys r)) =
       outbound_calls (snd (triggerBuild cfg sys pipeline (branch w) (HeadCommit_ID (HeadCommit w))
                  (HeadCommit_Message (HeadCommit w)) w))"
  using assms
  by (auto simp add: webhookHandler_def Let_def outbound_calls_append split: prod.splits run.splits option.splits)

lemma webhookHandler_decoded_events:
  assumes "Method r = ''POST''" and "TrimPrefix (URL_Path r) ''/webhook/'' = pipeline"
    and "pipeline \<noteq> []" and "pipeline \<noteq> ''webhook/''"
    and "Body r = Inr body" and "json_Unmarshal sys body = Inr w"
  shows "snd (webhookHandler cfg sys r) =
      (if logVerbose cfg then [Log (ReceivedPayload body)] else [])
      @ [Log (WebhookLine (Repository_FullName (Repository w)) (branch w) (commitShort w)
                (Pusher_Username (Pusher w)))]
      @ snd (triggerBuild cfg sys pipeline (branch w) (HeadCommit_ID (HeadCommit w))
                  (HeadCommit_Message (HeadCommit w)) w)
      @ (case fst (triggerBuild cfg sys pipeline (branch w) (HeadCommit_ID (HeadCommit w))
                  (HeadCommit_Message (HeadCommit w)) w) of
           Panics msg \<Rightarrow> []
         | Returns (Some err) \<Rightarrow> [Log (FailedToTriggerBuild err)]
         | Returns None \<Rightarrow> [])"
  using assms
  by (auto simp add: webhookHandler_def Let_def split: prod.splits run.splits option.splits)

lemma triggerBuild_token:
  assumes "client_Do sys (outbound_request (cfg\<lparr>buildkiteToken := t1\<rparr>) (build_url cfg pipeline) (Marshal (payload b c m w)))
         = client_Do sys (outbound_request (cfg\<lparr>buildkiteToken := t2\<rparr>) (build_url cfg pipeline) (Marshal (payload b c m w)))"
  shows "fst (triggerBuild (cfg\<lparr>buildkiteToken := t1\<rparr>) sys pipeline b c m w)
       = fst (triggerBuild (cfg\<lparr>buildkiteToken := t2\<rparr>) sys pipeline b c m w)"
    and "map redact (snd (triggerBuild (cfg\<lparr>buildkiteToken := t1\<rparr>) sys pipeline b c m w))
       = map redact (snd (triggerBuild (cfg\<lparr>buildkiteToken := t2\<rparr>) sys pipeline b c m w))"
proof -
  have u: "build_url (cfg\<lparr>buildkiteToken := t\<rparr>) pipeline = build_url cfg pipeline" for t
    by (simp add: build_url_def)
  have red: "redact (Outbound (outbound_request (cfg\<lparr>buildkiteToken := t1\<rparr>) url d))
           = redact (Outbound (outbound_request (cfg\<lparr>buildkiteToken := t2\<rparr>) url d))" for url d
    by (simp add: outbound_request_def)
  show "fst (triggerBuild (cfg\<lparr>buildkiteToken := t1\<rparr>) sys pipeline b c m w)
       = fst (triggerBuild (cfg\<lparr>buildkiteToken := t2\<rparr>) sys pipeline b c m w)"
    using assms by (simp add: triggerBuild_def u Let_def split: option.split sum.split)
  show "map redact (snd (triggerBuild (cfg\<lparr>buildkiteToken := t1\<rparr>) sys pipeline b c m w))
       = map redact (snd (triggerBuild (cfg\<lparr>buildkiteToken := t2\<rparr>) sys pipeline b c m w))"
    using assms red by (simp add: triggerBuild_def u Let_def split: option.split sum.split)
qed

section \<open>The author of the outbound payload\<close>

text \<open>
  Claim C10. The payload built for any webhook has its author pointer set, to the name
  and email of the head commit's author, so \<open>omitempty\<close> never drops it: the
  marshalled object has the member \<open>author\<close> with these two strings as JSON text, and
  so has the body of every outbound call that triggerBuild makes. For the zero webhook
  (every field omitted by the body) both strings are empty.
\<close>

theorem author_always_present:
  "Author (payload b c m w)
     = Some \<lparr>Name = Author_Name (HeadCommit_Author (HeadCommit w)),
             Email = Author_Email (HeadCommit_Author (HeadCommit w))\<rparr>
   \<and> members (Marshal (payload b c m w)) ''author''
     = Some (JObject [(''name'', JString (json_text (Author_Name (HeadCommit_Author (HeadCommit w))))),
                      (''email'', JString (json_text (Author_Email (HeadCommit_Author (HeadCommit w)))))])
   \<and> (\<forall>req \<in> set (outbound_calls (snd (triggerBuild cfg sys pipeline b c m w))).
        members (req_Body req) ''author''
          = Some (JObject [(''name'', JString (json_text (Author_Name (HeadCommit_Author (HeadCommit w))))),
                           (''email'', JString (json_text (Author_Email (HeadCommit_Author (HeadCommit w)))))]))
   \<and> members (Marshal (payload b c m zero_webhook)) ''author''
     = Some (JObject [(''name'', JString []), (''email'', JString [])])"
proof -
  have mem: "members (Marshal (payload b c m w)) ''author''
     = Some (JObject [(''name'', JString (json_text (Author_Name (HeadCommit_Author (HeadCommit w))))),
                      (''email'', JString (json_text (Author_Email (HeadCommit_Author (HeadCommit w)))))])"
    for w
    by (simp add: payload_def Marshal_def)
  have calls: "members (req_Body req) ''author''
          = Some (JObject [(''name'', JString (json_text (Author_Name (HeadCommit_Author (HeadCommit w))))),
                           (''email'', JString (json_text (Author_Email (HeadCommit_Author (HeadCommit w)))))])"
    if "req \<in> set (outbound_calls (snd (triggerBuild cfg sys pipeline b c m w)))" for req
  proof (cases "url_Parse sys (build_url cfg pipeline)")
    case None
    with that have "req = outbound_request cfg (build_url cfg pipeline) (Marshal (payload b c m w))"
      by (simp add: triggerBuild_calls)
    then show ?thesis
      by (simp add: outbound_request_def mem)
  next
    case (Some err)
    with that show ?thesis
      by (simp add: triggerBuild_bad_url)
  qed
  have zero: "members (Marshal (payload b c m zero_webhook)) ''author''
     = Some (JObject [(''name'', JString []), (''email'', JString [])])"
    by (simp add: payload_def Marshal_def zero_webhook_def json_text_def)
  have ptr: "Author (payload b c m w)
     = Some \<lparr>Name = Author_Name (HeadCommit_Author (HeadCommit w)),
             Email = Author_Email (HeadCommit_Author (HeadCommit w))\<rparr>"
    by (simp add: payload_def)
  show ?thesis
    using ptr mem [of w] calls zero by blast
qed

theorem author_always_present_witness:
  "outbound_calls (snd (triggerBuild example_config
      (example_system (Inr zero_webhook) (Inr \<lparr>StatusCode = 201, resp_Body = ''{}''\<rparr>))
      ''my-pipeline'' [] [] [] zero_webhook))
    = [outbound_request example_config (build_url example_config ''my-pipeline'')
         (Marshal (payload [] [] [] zero_webhook))]
   \<and> members (req_Body (outbound_request example_config (build_url example_config ''my-pipeline'')
         (Marshal (payload [] [] [] zero_webhook)))) ''author''
     = Some (JObject [(''name'', JString []), (''email'', JString [])])"
proof -
  let ?sys = "example_system (Inr zero_webhook) (Inr \<lparr>StatusCode = 201, resp_Body = ''{}''\<rparr>)"
  let ?req = "outbound_request example_config (build_url example_config ''my-pipeline'')
         (Marshal (payload [] [] [] zero_webhook))"
  have url: "url_Parse ?sys (build_url example_config ''my-pipeline'') = None"
    by (simp add: example_system_def)
  have calls: "outbound_calls (snd (triggerBuild example_config ?sys ''my-pipeline'' [] [] []
                  zero_webhook)) = [?req]"
    by (rule triggerBuild_calls [OF url])
  then have "?req \<in> set (outbound_calls (snd (triggerBuild example_config ?sys ''my-pipeline''
                  [] [] [] zero_webhook)))"
    by simp
  with author_always_present [of "[]" "[]" "[]" zero_webhook example_config ?sys "''my-pipeline''"]
  have "members (req_Body ?req) ''author''
     = Some (JObject [(''name'', JString (json_text (Author_Name (HeadCommit_Author (HeadCommit zero_webhook))))),
                      (''email'', JString (json_text (Author_Email (HeadCommit_Author (HeadCommit zero_webhook)))))])"
    by blast
  then have "members (req_Body ?req) ''author''
     = Some (JObject [(''name'', JString []), (''email'', JString [])])"
    by (simp add: zero_webhook_def json_text_def)
  with calls show ?thesis by simp
qed

section \<open>The README's push event\<close>

text \<open>
  Claim C2. For a webhook with ref \<open>refs/heads/main\<close>, commit id \<open>abc123def456\<close>,
  repository full name \<open>user/my-repo\<close> and pusher \<open>john\<close>, posted to
  \<open>/webhook/my-pipeline\<close>, the payload has the full commit id, branch \<open>main\<close>, the raw
  commit message, \<open>FORGEJO_PUSHER\<close> = \<open>john\<close>, \<open>FORGEJO_REPO\<close> = \<open>user/my-repo\<close> and
  the short repository name as the third of its three env entries; this payload is the
  body of the one outbound call; and when the downstream answers 200 or 201 the reply
  is 200 with a JSON object whose members are status, message, pipeline, branch and
  the short commit \<open>abc123d\<close>.
\<close>

theorem example_push_translated:
  assumes w: "Ref w = ''refs/heads/main''" "HeadCommit_ID (HeadCommit w) = ''abc123def456''"
      "Repository_FullName (Repository w) = ''user/my-repo''" "Pusher_Username (Pusher w) = ''john''"
    and r: "Method r = ''POST''" "URL_Path r = ''/webhook/my-pipeline''" "Body r = Inr body"
    and dec: "json_Unmarshal sys body = Inr w"
    and url: "url_Parse sys (build_url cfg ''my-pipeline'') = None"
    and p: "p = payload (branch w) (HeadCommit_ID (HeadCommit w)) (HeadCommit_Message (HeadCommit w)) w"
    and down: "client_Do sys (outbound_request cfg (build_url cfg ''my-pipeline'') (Marshal p)) = Inr resp"
      "StatusCode resp = 200 \<or> StatusCode resp = 201"
  shows "Commit p = ''abc123def456'' \<and> Branch p = ''main''
     \<and> Message p = HeadCommit_Message (HeadCommit w)
     \<and> map_of (Env p) ''FORGEJO_PUSHER'' = Some ''john''
     \<and> map_of (Env p) ''FORGEJO_REPO'' = Some ''user/my-repo''
     \<and> length (Env p) = 3
     \<and> Env p ! 2 = (''FORGEJO_REPO_NAME'', Repository_Name (Repository w))
     \<and> outbound_calls (snd (webhookHandler cfg sys r))
         = [outbound_request cfg (build_url cfg ''my-pipeline'') (Marshal p)]
     \<and> (\<exists>d. fst (webhookHandler cfg sys r)
              = Returns \<lparr>reply_Code = 200,
                         reply_Header = [(''Content-Type'', ''application/json'')],
                         reply_Body = Document d\<rparr>
            \<and> members d = [''status'' \<mapsto> JString ''success'',
                            ''message'' \<mapsto> JString ''Build triggered successfully'',
                            ''pipeline'' \<mapsto> JString ''my-pipeline'',
                            ''branch'' \<mapsto> JString ''main'',
                            ''commit'' \<mapsto> JString ''abc123d''])"
proof -
  have br: "branch w = ''main''"
    by (simp add: branch_def w(1) TrimPrefix_def HasPrefix_def)
  have cs: "commitShort w = ''abc123d''"
    by (simp add: commitShort_def w(2))
  have path: "TrimPrefix (URL_Path r) ''/webhook/'' = ''my-pipeline''"
    by (simp add: r(2) TrimPrefix_def HasPrefix_def)
  have fields: "Commit p = ''abc123def456'' \<and> Branch p = ''main''
     \<and> Message p = HeadCommit_Message (HeadCommit w)
     \<and> map_of (Env p) ''FORGEJO_PUSHER'' = Some ''john''
     \<and> map_of (Env p) ''FORGEJO_REPO'' = Some ''user/my-repo''
     \<and> length (Env p) = 3
     \<and> Env p ! 2 = (''FORGEJO_REPO_NAME'', Repository_Name (Repository w))"
    by (simp add: p payload_def br w)
  have tb: "fst (triggerBuild cfg sys ''my-pipeline'' (branch w) (HeadCommit_ID (HeadCommit w))
                  (HeadCommit_Message (HeadCommit w)) w) = Returns None"
    using triggerBuild_good_status [OF url down(1) [unfolded p] down(2)] by (simp add: w(2))
  have calls: "outbound_calls (snd (webhookHandler cfg sys r))
         = [outbound_request cfg (build_url cfg ''my-pipeline'') (Marshal p)]"
    using webhookHandler_decoded(2) [OF r(1) path _ _ r(3) dec, of cfg]
      triggerBuild_calls [OF url]
    by (simp add: p)
  have rep: "fst (webhookHandler cfg sys r) = Returns (success_reply ''my-pipeline'' w)"
    using webhookHandler_decoded(1) [OF r(1) path _ _ r(3) dec, of cfg] by (simp add: tb)
  have doc: "success_reply ''my-pipeline'' w
     = \<lparr>reply_Code = 200, reply_Header = [(''Content-Type'', ''application/json'')],
        reply_Body = Document (JObject
          [(''branch'', JString ''main''),
           (''commit'', JString ''abc123d''),
           (''message'', JString ''Build triggered successfully''),
           (''pipeline'', JString ''my-pipeline''),
           (''status'', JString ''success'')])\<rparr>"
    by (simp add: success_reply_def success_document br cs json_text_ascii)
  have mem: "members (JObject
          [(''branch'', JString ''main''),
           (''commit'', JString ''abc123d''),
           (''message'', JString ''Build triggered successfully''),
           (''pipeline'', JString ''my-pipeline''),
           (''status'', JString ''success'')])
      = [''status'' \<mapsto> JString ''success'',
         ''message'' \<mapsto> JString ''Build triggered successfully'',
         ''pipeline'' \<mapsto> JString ''my-pipeline'',
         ''branch'' \<mapsto> JString ''main'',
         ''commit'' \<mapsto> JString ''abc123d'']"
    by (rule ext) simp
  from fields calls rep doc mem show ?thesis by simp
qed

theorem example_push_translated_witness:
  "Commit (payload (branch (example_webhook ''abc123def456'')) ''abc123def456'' ''Test commit'' (example_webhook ''abc123def456'')) = ''abc123def456''
   \<and> Env (payload (branch (example_webhook ''abc123def456'')) ''abc123def456'' ''Test commit'' (example_webhook ''abc123def456'')) ! 2
       = (''FORGEJO_REPO_NAME'', ''my-repo'')
   \<and> fst (webhookHandler example_config
        (example_system (Inr (example_webhook ''abc123def456'')) (Inr \<lparr>StatusCode = 201, resp_Body = ''{}''\<rparr>))
        (example_request ''POST'' ''/webhook/my-pipeline''))
     = Returns \<lparr>reply_Code = 200,
                reply_Header = [(''Content-Type'', ''application/json'')],
                reply_Body = Document (JObject
                  [(''branch'', JString ''main''),
                   (''commit'', JString ''abc123d''),
                   (''message'', JString ''Build triggered successfully''),
                   (''pipeline'', JString ''my-pipeline''),
                   (''status'', JString ''success'')])\<rparr>"
  using example_push_translated
    [of "example_webhook ''abc123def456''" "example_request ''POST'' ''/webhook/my-pipeline''" "''{}''"
        "example_system (Inr (example_webhook ''abc123def456'')) (Inr \<lparr>StatusCode = 201, resp_Body = ''{}''\<rparr>)"
        example_config
        "payload (branch (example_webhook ''abc123def456'')) ''abc123def456'' ''Test commit'' (example_webhook ''abc123def456'')"
        "\<lparr>StatusCode = 201, resp_Body = ''{}''\<rparr>"]
  by (simp add: example_webhook_def example_system_def example_config_def example_request_def webhookHandler_def triggerBuild_def TrimPrefix_def HasPrefix_def
      branch_def commitShort_def build_url_def success_reply_def success_document payload_def Let_def
      json_text_ascii)

section \<open>Downstream outcomes\<close>

text \<open>
  Claim C3. For a POST with a pipeline and a decodable body whose outbound request is
  made: a downstream status of 200 or 201 is no error (triggerBuild returns no error
  value, any reply written has status 200, and with a commit id of at least 7 bytes
  the result is nil and the reply the success reply); any other status gives the error
  \<open>buildkite API returned <status>: <body>\<close> and the reply 500 whose text contains the
  status and the body; a transport failure gives the reply 500 with the transport
  error text.
\<close>

theorem downstream_outcome_mapped:
  assumes r: "Method r = ''POST''" "URL_Path r = ''/webhook/'' @ pipeline" "Body r = Inr body"
    and pl: "pipeline \<noteq> []" "pipeline \<noteq> ''webhook/''"
    and dec: "json_Unmarshal sys body = Inr w"
    and url: "url_Parse sys (build_url cfg pipeline) = None"
    and req: "req = outbound_request cfg (build_url cfg pipeline)
                (Marshal (payload (branch w) (HeadCommit_ID (HeadCommit w))
                            (HeadCommit_Message (HeadCommit w)) w))"
    and res: "result = fst (triggerBuild cfg sys pipeline (branch w) (HeadCommit_ID (HeadCommit w))
                              (HeadCommit_Message (HeadCommit w)) w)"
  shows "(\<forall>resp. client_Do sys req = Inr resp \<and> (StatusCode resp = 200 \<or> StatusCode resp = 201) \<longrightarrow>
            (\<forall>e. result \<noteq> Returns (Some e))
          \<and> (\<forall>rep. fst (webhookHandler cfg sys r) = Returns rep \<longrightarrow> reply_Code rep = 200)
          \<and> (7 \<le> length (HeadCommit_ID (HeadCommit w)) \<longrightarrow>
                result = Returns None
              \<and> fst (webhookHandler cfg sys r) = Returns (success_reply pipeline w)))
      \<and> (\<forall>resp. client_Do sys req = Inr resp \<and> StatusCode resp \<noteq> 200 \<and> StatusCode resp \<noteq> 201 \<longrightarrow>
            result = Returns (Some (''buildkite API returned '' @ itoa (StatusCode resp)
                                     @ '': '' @ resp_Body resp))
          \<and> fst (webhookHandler cfg sys r)
              = Returns \<lparr>reply_Code = 500,
                   reply_Header = [(''Content-Type'', ''text/plain; charset=utf-8''),
                                   (''X-Content-Type-Options'', ''nosniff'')],
                   reply_Body = Text (''Failed to trigger build: buildkite API returned ''
                                  @ itoa (StatusCode resp) @ '': '' @ resp_Body resp @ [CHR 0x0A])\<rparr>
          \<and> sublist (itoa (StatusCode resp))
                (''Failed to trigger build: buildkite API returned ''
                   @ itoa (StatusCode resp) @ '': '' @ resp_Body resp @ [CHR 0x0A])
          \<and> sublist (resp_Body resp)
                (''Failed to trigger build: buildkite API returned ''
                   @ itoa (StatusCode resp) @ '': '' @ resp_Body resp @ [CHR 0x0A]))
      \<and> (\<forall>e. client_Do sys req = Inl e \<longrightarrow>
            result = Returns (Some (''request failed: '' @ e))
          \<and> fst (webhookHandler cfg sys r)
              = Returns \<lparr>reply_Code = 500,
                   reply_Header = [(''Content-Type'', ''text/plain; charset=utf-8''),
                                   (''X-Content-Type-Options'', ''nosniff'')],
                   reply_Body = Text (''Failed to trigger build: request failed: '' @ e @ [CHR 0x0A])\<rparr>)"
proof -
  have path: "TrimPrefix (URL_Path r) ''/webhook/'' = pipeline"
    by (simp only: r(2) TrimPrefix_append)
  note handler = webhookHandler_decoded(1) [OF r(1) path pl r(3) dec, of cfg, folded res]
  have good: "(\<forall>e. result \<noteq> Returns (Some e))
          \<and> (\<forall>rep. fst (webhookHandler cfg sys r) = Returns rep \<longrightarrow> reply_Code rep = 200)
          \<and> (7 \<le> length (HeadCommit_ID (HeadCommit w)) \<longrightarrow>
                result = Returns None
              \<and> fst (webhookHandler cfg sys r) = Returns (success_reply pipeline w))"
    if "client_Do sys req = Inr resp" "StatusCode resp = 200 \<or> StatusCode resp = 201" for resp
  proof -
    have "result = (if length (HeadCommit_ID (HeadCommit w)) < 7
                    then Panics (''runtime error: slice bounds out of range [:7] with length ''
                                   @ itoa (int (length (HeadCommit_ID (HeadCommit w)))))
                    else Returns None)"
      unfolding res using triggerBuild_good_status [OF url that(1) [unfolded req] that(2)] .
    then show ?thesis
      using handler by (auto simp: success_reply_def)
  qed
  have bad: "result = Returns (Some (''buildkite API returned '' @ itoa (StatusCode resp)
                                     @ '': '' @ resp_Body resp))
          \<and> fst (webhookHandler cfg sys r)
              = Returns \<lparr>reply_Code = 500,
                   reply_Header = [(''Content-Type'', ''text/plain; charset=utf-8''),
                                   (''X-Content-Type-Options'', ''nosniff'')],
                   reply_Body = Text (''Failed to trigger build: buildkite API returned ''
                                  @ itoa (StatusCode resp) @ '': '' @ resp_Body resp @ [CHR 0x0A])\<rparr>"
    if "client_Do sys req = Inr resp" "StatusCode resp \<noteq> 200" "StatusCode resp \<noteq> 201" for resp
  proof -
    have "result = Returns (Some (''buildkite API returned '' @ itoa (StatusCode resp)
                                     @ '': '' @ resp_Body resp))"
      unfolding res using triggerBuild_bad_status [OF url that(1) [unfolded req] that(2,3)] .
    then show ?thesis
      using handler by (simp add: http_Error_def)
  qed
  have sub1: "sublist (itoa (StatusCode resp))
                (''Failed to trigger build: buildkite API returned ''
                   @ itoa (StatusCode resp) @ '': '' @ resp_Body resp @ [CHR 0x0A])" for resp
    by (rule sublist_appendI)
  have sub2: "sublist (resp_Body resp)
                (''Failed to trigger build: buildkite API returned ''
                   @ itoa (StatusCode resp) @ '': '' @ resp_Body resp @ [CHR 0x0A])" for resp
    using sublist_appendI [of "resp_Body resp"
        "''Failed to trigger build: buildkite API returned '' @ itoa (StatusCode resp) @ '': ''"
        "[CHR 0x0A]"]
    by (simp only: append_assoc)
  have transport: "result = Returns (Some (''request failed: '' @ e))
          \<and> fst (webhookHandler cfg sys r)
              = Returns \<lparr>reply_Code = 500,
                   reply_Header = [(''Content-Type'', ''text/plain; charset=utf-8''),
                                   (''X-Content-Type-Options'', ''nosniff'')],
                   reply_Body = Text (''Failed to trigger build: request failed: '' @ e @ [CHR 0x0A])\<rparr>"
    if "client_Do sys req = Inl e" for e
  proof -
    have "result = Returns (Some (''request failed: '' @ e))"
      unfolding res using triggerBuild_transport_error [OF url that [unfolded req]] .
    then show ?thesis
      using handler by (simp add: http_Error_def)
  qed
  show ?thesis
    using good bad sub1 sub2 transport by blast
qed

theorem downstream_outcome_mapped_witness:
  "fst (webhookHandler example_config
          (example_system (Inr (example_webhook ''abc123def456''))
             (Inr \<lparr>StatusCode = 422, resp_Body = no_commit_found\<rparr>))
          (example_request ''POST'' ''/webhook/my-pipeline''))
     = Returns \<lparr>reply_Code = 500,
          reply_Header = [(''Content-Type'', ''text/plain; charset=utf-8''),
                          (''X-Content-Type-Options'', ''nosniff'')],
          reply_Body = Text (''Failed to trigger build: buildkite API returned 422: ''
                               @ no_commit_found @ [CHR 0x0A])\<rparr>
   \<and> fst (webhookHandler example_config
          (example_system (Inr (example_webhook ''abc123def456''))
             (Inl ''dial tcp: connection refused''))
          (example_request ''POST'' ''/webhook/my-pipeline''))
     = Returns \<lparr>reply_Code = 500,
          reply_Header = [(''Content-Type'', ''text/plain; charset=utf-8''),
                          (''X-Content-Type-Options'', ''nosniff'')],
          reply_Body = Text (''Failed to trigger build: request failed: dial tcp: connection refused''
                               @ [CHR 0x0A])\<rparr>
   \<and> fst (webhookHandler example_config
          (example_system (Inr (example_webhook ''abc123def456''))
             (Inr \<lparr>StatusCode = 200, resp_Body = ''{}''\<rparr>))
          (example_request ''POST'' ''/webhook/my-pipeline''))
     = Returns (success_reply ''my-pipeline'' (example_webhook ''abc123def456''))"
proof -
  let ?w = "example_webhook ''abc123def456''"
  let ?r = "example_request ''POST'' ''/webhook/my-pipeline''"
  let ?req = "outbound_request example_config (build_url example_config ''my-pipeline'')
                (Marshal (payload (branch ?w) (HeadCommit_ID (HeadCommit ?w))
                            (HeadCommit_Message (HeadCommit ?w)) ?w))"
  have r: "Method ?r = ''POST''" "URL_Path ?r = ''/webhook/'' @ ''my-pipeline''" "Body ?r = Inr ''{}''"
    by (simp_all add: example_request_def)
  have pl: "''my-pipeline'' \<noteq> []" "''my-pipeline'' \<noteq> ''webhook/''"
    by simp_all
  have dec: "json_Unmarshal (example_system (Inr ?w) a) ''{}'' = Inr ?w" for a
    by (simp add: example_system_def)
  have url: "url_Parse (example_system (Inr ?w) a) (build_url example_config ''my-pipeline'') = None" for a
    by (simp add: example_system_def)
  have len: "7 \<le> length (HeadCommit_ID (HeadCommit ?w))"
    by (simp add: example_webhook_def)
  have do: "client_Do (example_system (Inr ?w) a) ?req = a" for a
    by (simp add: example_system_def)
  have a: "fst (webhookHandler example_config
          (example_system (Inr ?w) (Inr \<lparr>StatusCode = 422, resp_Body = no_commit_found\<rparr>)) ?r)
     = Returns \<lparr>reply_Code = 500,
          reply_Header = [(''Content-Type'', ''text/plain; charset=utf-8''),
                          (''X-Content-Type-Options'', ''nosniff'')],
          reply_Body = Text (''Failed to trigger build: buildkite API returned 422: ''
                               @ no_commit_found @ [CHR 0x0A])\<rparr>"
    using downstream_outcome_mapped [OF r pl
        dec [of "Inr \<lparr>StatusCode = 422, resp_Body = no_commit_found\<rparr>"]
        url [of "Inr \<lparr>StatusCode = 422, resp_Body = no_commit_found\<rparr>"] refl refl,
        THEN conjunct2, THEN conjunct1, THEN spec,
        of "\<lparr>StatusCode = 422, resp_Body = no_commit_found\<rparr>"]
    by (simp add: do itoa_def digits.simps)
  have b: "fst (webhookHandler example_config
          (example_system (Inr ?w) (Inl ''dial tcp: connection refused'')) ?r)
     = Returns \<lparr>reply_Code = 500,
          reply_Header = [(''Content-Type'', ''text/plain; charset=utf-8''),
                          (''X-Content-Type-Options'', ''nosniff'')],
          reply_Body = Text (''Failed to trigger build: request failed: dial tcp: connection refused''
                               @ [CHR 0x0A])\<rparr>"
    using downstream_outcome_mapped [OF r pl
        dec [of "Inl ''dial tcp: connection refused''"]
        url [of "Inl ''dial tcp: connection refused''"] refl refl,
        THEN conjunct2, THEN conjunct2, THEN spec, of "''dial tcp: connection refused''"]
    by (simp add: do)
  have c: "fst (webhookHandler example_config
          (example_system (Inr ?w) (Inr \<lparr>StatusCode = 200, resp_Body = ''{}''\<rparr>)) ?r)
     = Returns (success_reply ''my-pipeline'' ?w)"
    using downstream_outcome_mapped [OF r pl
        dec [of "Inr \<lparr>StatusCode = 200, resp_Body = ''{}''\<rparr>"]
        url [of "Inr \<lparr>StatusCode = 200, resp_Body = ''{}''\<rparr>"] refl refl,
        THEN conjunct1, THEN spec, of "\<lparr>StatusCode = 200, resp_Body = ''{}''\<rparr>"]
    by (simp add: do len)
  from a b c show ?thesis by (intro conjI)
qed

section \<open>A path without a pipeline\<close>

text \<open>
  Claim C7, as the code has it. A POST to \<open>/webhook/\<close> gets status 400 with the
  plain-text line \<open>Pipeline slug required in URL: /webhook/<pipeline-slug>\<close>. The
  result is this reply and no event, whatever the body, so no outbound call is made.
\<close>

theorem missing_pipeline_bad_request:
  assumes "Method r = ''POST''" and "URL_Path r = ''/webhook/''"
  shows "webhookHandler cfg sys r =
     (Returns \<lparr>reply_Code = 400,
               reply_Header = [(''Content-Type'', ''text/plain; charset=utf-8''),
                               (''X-Content-Type-Options'', ''nosniff'')],
               reply_Body = Text (''Pipeline slug required in URL: /webhook/<pipeline-slug>''
                                    @ [CHR 0x0A])\<rparr>, [])"
  using assms by (simp add: webhookHandler_def http_Error_def TrimPrefix_def HasPrefix_def)

theorem missing_pipeline_bad_request_witness:
  "Method (example_request ''POST'' ''/webhook/'') = ''POST''
   \<and> URL_Path (example_request ''POST'' ''/webhook/'') = ''/webhook/''
   \<and> webhookHandler example_config
        (example_system (Inr (example_webhook ''abc123def456''))
           (Inr \<lparr>StatusCode = 201, resp_Body = ''{}''\<rparr>))
        (example_request ''POST'' ''/webhook/'') =
     (Returns \<lparr>reply_Code = 400,
               reply_Header = [(''Content-Type'', ''text/plain; charset=utf-8''),
                               (''X-Content-Type-Options'', ''nosniff'')],
               reply_Body = Text (''Pipeline slug required in URL: /webhook/<pipeline-slug>''
                                    @ [CHR 0x0A])\<rparr>, [])"
proof -
  have m: "Method (example_request ''POST'' ''/webhook/'') = ''POST''"
    and p: "URL_Path (example_request ''POST'' ''/webhook/'') = ''/webhook/''"
    by (simp_all add: example_request_def)
  show ?thesis
    using m p missing_pipeline_bad_request [OF m p] by simp
qed

text \<open>
  The method is tested before the path, and the text of the reply is the one above:
  a GET to \<open>/webhook/\<close> gets 405, and the reply to a POST does not contain
  \<open>pipeline identifier required\<close>.
\<close>

theorem missing_pipeline_counterexample:
  "fst (webhookHandler example_config
          (example_system (Inr (example_webhook ''abc123def456'')) (Inr \<lparr>StatusCode = 201, resp_Body = ''{}''\<rparr>))
          (example_request ''GET'' ''/webhook/''))
     = Returns (http_Error ''Method not allowed'' 405)
   \<and> reply_Code (http_Error ''Method not allowed'' 405) \<noteq> 400
   \<and> fst (webhookHandler example_config
          (example_system (Inr (example_webhook ''abc123def456'')) (Inr \<lparr>StatusCode = 201, resp_Body = ''{}''\<rparr>))
          (example_request ''POST'' ''/webhook/''))
     = Returns (http_Error ''Pipeline slug required in URL: /webhook/<pipeline-slug>'' 400)
   \<and> \<not> sublist ''pipeline identifier required''
          ''Pipeline slug required in URL: /webhook/<pipeline-slug>''"
  by (simp add: webhookHandler_def example_request_def TrimPrefix_def HasPrefix_def
      http_Error_def sublist_Cons_right)

section \<open>The token\<close>

text \<open>
  Claim C9. Take two tokens and a downstream that answers the requests made with the
  one as it answers those made with the other. Then the two runs of the handler end
  the same way (the same reply, status and body, on every path), and their events
  differ at most in the \<open>Authorization\<close> header of the outbound request.
\<close>

theorem token_only_in_authorization:
  assumes "\<forall>url d. client_Do sys (outbound_request (cfg\<lparr>buildkiteToken := t1\<rparr>) url d)
                 = client_Do sys (outbound_request (cfg\<lparr>buildkiteToken := t2\<rparr>) url d)"
  shows "fst (webhookHandler (cfg\<lparr>buildkiteToken := t1\<rparr>) sys r)
       = fst (webhookHandler (cfg\<lparr>buildkiteToken := t2\<rparr>) sys r)
     \<and> map redact (snd (webhookHandler (cfg\<lparr>buildkiteToken := t1\<rparr>) sys r))
       = map redact (snd (webhookHandler (cfg\<lparr>buildkiteToken := t2\<rparr>) sys r))"
proof -
  let ?c1 = "cfg\<lparr>buildkiteToken := t1\<rparr>" and ?c2 = "cfg\<lparr>buildkiteToken := t2\<rparr>"
  let ?path = "TrimPrefix (URL_Path r) ''/webhook/''"
  consider (not_post) "Method r \<noteq> ''POST''"
    | (nopath) "Method r = ''POST''" "?path = [] \<or> ?path = ''webhook/''"
    | (unread) err where "Method r = ''POST''" "?path \<noteq> []" "?path \<noteq> ''webhook/''" "Body r = Inl err"
    | (undecoded) body err where "Method r = ''POST''" "?path \<noteq> []" "?path \<noteq> ''webhook/''"
        "Body r = Inr body" "json_Unmarshal sys body = Inl err"
    | (decoded) body w where "Method r = ''POST''" "?path \<noteq> []" "?path \<noteq> ''webhook/''"
        "Body r = Inr body" "json_Unmarshal sys body = Inr w"
  proof (cases "Body r")
    case (Inl err)
    then show ?thesis using that(1,2,3) by blast
  next
    case (Inr body)
    then show ?thesis using that(1,2,4,5) by (cases "json_Unmarshal sys body") blast+
  qed
  then show ?thesis
  proof cases
    case not_post
    then show ?thesis by (simp add: webhookHandler_def)
  next
    case nopath
    then show ?thesis by (simp add: webhookHandler_def)
  next
    case unread
    then show ?thesis by (simp add: webhookHandler_def)
  next
    case undecoded
    then show ?thesis by (simp add: webhookHandler_def)
  next
    case decoded
    let ?t = "\<lambda>c. triggerBuild c sys ?path (branch w) (HeadCommit_ID (HeadCommit w))
                  (HeadCommit_Message (HeadCommit w)) w"
    have same: "client_Do sys (outbound_request ?c1 (build_url cfg ?path)
                   (Marshal (payload (branch w) (HeadCommit_ID (HeadCommit w))
                     (HeadCommit_Message (HeadCommit w)) w)))
              = client_Do sys (outbound_request ?c2 (build_url cfg ?path)
                   (Marshal (payload (branch w) (HeadCommit_ID (HeadCommit w))
                     (HeadCommit_Message (HeadCommit w)) w)))"
      using assms by blast
    have f: "fst (?t ?c1) = fst (?t ?c2)"
      by (rule triggerBuild_token(1) [OF same])
    have s: "map redact (snd (?t ?c1)) = map redact (snd (?t ?c2))"
      by (rule triggerBuild_token(2) [OF same])
    have "fst (webhookHandler ?c1 sys r) = fst (webhookHandler ?c2 sys r)"
      by (simp only: webhookHandler_decoded(1) [OF decoded(1) refl decoded(2-5)] f)
    moreover have "map redact (snd (webhookHandler ?c1 sys r))
                 = map redact (snd (webhookHandler ?c2 sys r))"
      by (simp add: webhookHandler_decoded_events [OF decoded(1) refl decoded(2-5)] f s)
    ultimately show ?thesis by simp
  qed
qed

theorem token_only_in_authorization_witness:
  "fst (webhookHandler (example_config\<lparr>buildkiteToken := ''bkua_one''\<rparr>)
          (example_system (Inr (example_webhook ''abc123def456''))
             (Inr \<lparr>StatusCode = 422, resp_Body = no_commit_found\<rparr>))
          (example_request ''POST'' ''/webhook/my-pipeline''))
   = fst (webhookHandler (example_config\<lparr>buildkiteToken := ''bkua_two''\<rparr>)
          (example_system (Inr (example_webhook ''abc123def456''))
             (Inr \<lparr>StatusCode = 422, resp_Body = no_commit_found\<rparr>))
          (example_request ''POST'' ''/webhook/my-pipeline''))
   \<and> map redact (snd (webhookHandler (example_config\<lparr>buildkiteToken := ''bkua_one''\<rparr>)
          (example_system (Inr (example_webhook ''abc123def456''))
             (Inr \<lparr>StatusCode = 422, resp_Body = no_commit_found\<rparr>))
          (example_request ''POST'' ''/webhook/my-pipeline'')))
   = map redact (snd (webhookHandler (example_config\<lparr>buildkiteToken := ''bkua_two''\<rparr>)
          (example_system (Inr (example_webhook ''abc123def456''))
             (Inr \<lparr>StatusCode = 422, resp_Body = no_commit_found\<rparr>))
          (example_request ''POST'' ''/webhook/my-pipeline'')))"
proof -
  have same: "\<forall>url d.
      client_Do (example_system (Inr (example_webhook ''abc123def456''))
                   (Inr \<lparr>StatusCode = 422, resp_Body = no_commit_found\<rparr>))
        (outbound_request (example_config\<lparr>buildkiteToken := ''bkua_one''\<rparr>) url d)
    = client_Do (example_system (Inr (example_webhook ''abc123def456''))
                   (Inr \<lparr>StatusCode = 422, resp_Body = no_commit_found\<rparr>))
        (outbound_request (example_config\<lparr>buildkiteToken := ''bkua_two''\<rparr>) url d)"
    by (simp add: example_system_def)
  show ?thesis
    by (rule token_only_in_authorization [OF same])
qed

section \<open>The short commit\<close>

text \<open>
  Claim C5, with bytes for characters. For a POST with a pipeline and a decodable
  body: a commit id of at least 7 bytes has as its short form exactly its first 7
  bytes, and a commit id of fewer than 7 bytes is its own short form. This short form
  is what the handler's log line carries, and a reply with status 200 carries it as
  the member \<open>commit\<close>, as JSON text (a byte that is not valid UTF-8, as a cut
  inside a character leaves it, becomes U+FFFD). For an ASCII commit id, such as a
  hexadecimal hash, the JSON text is the short form itself and the short form is the
  first 7 characters of the id.
\<close>

theorem commitShort_first_seven_bytes:
  assumes r: "Method r = ''POST''" "URL_Path r = ''/webhook/'' @ pipeline" "Body r = Inr body"
    and pl: "pipeline \<noteq> []" "pipeline \<noteq> ''webhook/''"
    and dec: "json_Unmarshal sys body = Inr w"
    and id: "commit = HeadCommit_ID (HeadCommit w)"
  shows "(7 \<le> length commit \<longrightarrow> commitShort w = take 7 commit)
     \<and> (length commit < 7 \<longrightarrow> commitShort w = commit)
     \<and> Log (WebhookLine (Repository_FullName (Repository w)) (branch w) (commitShort w)
               (Pusher_Username (Pusher w))) \<in> set (snd (webhookHandler cfg sys r))
     \<and> (\<forall>rep. fst (webhookHandler cfg sys r) = Returns rep \<and> reply_Code rep = 200 \<longrightarrow>
            reply_member rep ''commit'' = Some (JString (json_text (commitShort w))))
     \<and> ((\<forall>c \<in> set commit. of_char c < (128::nat)) \<longrightarrow>
            json_text (commitShort w) = commitShort w
          \<and> commitShort w = first_characters 7 commit)"
proof -
  have path: "TrimPrefix (URL_Path r) ''/webhook/'' = pipeline"
    by (simp only: r(2) TrimPrefix_append)
  have short: "commitShort w = take 7 commit"
    by (simp add: commitShort_def id)
  have long: "7 \<le> length commit \<longrightarrow> commitShort w = take 7 commit"
    using short by simp
  have small: "length commit < 7 \<longrightarrow> commitShort w = commit"
    using short by simp
  have logged: "Log (WebhookLine (Repository_FullName (Repository w)) (branch w) (commitShort w)
               (Pusher_Username (Pusher w))) \<in> set (snd (webhookHandler cfg sys r))"
    by (simp add: webhookHandler_decoded_events [OF r(1) path pl r(3) dec])
  have member: "reply_member (success_reply pipeline w) ''commit''
                  = Some (JString (json_text (commitShort w)))"
    by (simp add: reply_member_def success_reply_def success_document)
  have replied: "reply_member rep ''commit'' = Some (JString (json_text (commitShort w)))"
    if "fst (webhookHandler cfg sys r) = Returns rep" "reply_Code rep = 200" for rep
  proof -
    let ?t = "fst (triggerBuild cfg sys pipeline (branch w) (HeadCommit_ID (HeadCommit w))
                     (HeadCommit_Message (HeadCommit w)) w)"
    have h: "Returns rep =
       (case ?t of
          Panics msg \<Rightarrow> Panics msg
        | Returns (Some err) \<Rightarrow> Returns (http_Error (''Failed to trigger build: '' @ err) 500)
        | Returns None \<Rightarrow> Returns (success_reply pipeline w))"
      using webhookHandler_decoded(1) [OF r(1) path pl r(3) dec, of cfg] that(1) by simp
    have "rep = success_reply pipeline w"
    proof (cases ?t)
      case (Panics msg)
      with h show ?thesis by simp
    next
      case (Returns e)
      show ?thesis
      proof (cases e)
        case None
        with h Returns show ?thesis by simp
      next
        case (Some err)
        with h Returns have "rep = http_Error (''Failed to trigger build: '' @ err) 500"
          by simp
        with that(2) show ?thesis by (simp add: http_Error_def)
      qed
    qed
    with member show ?thesis by simp
  qed
  have ascii: "json_text (commitShort w) = commitShort w
          \<and> commitShort w = first_characters 7 commit"
    if a: "\<forall>c \<in> set commit. of_char c < (128::nat)"
  proof -
    have "\<forall>c \<in> set (take 7 commit). of_char c < (128::nat)"
      using a by (meson in_set_takeD)
    then have "json_text (take 7 commit) = take 7 commit"
      by (rule json_text_ascii)
    moreover have "first_characters 7 commit = take 7 commit"
      using a by (rule first_characters_ascii)
    ultimately show ?thesis
      by (simp add: short)
  qed
  show ?thesis
    using long small logged replied ascii by blast
qed

theorem commitShort_first_seven_bytes_witness:
  "commitShort (example_webhook ''abc123def456'') = ''abc123d''
   \<and> commitShort (example_webhook ''HEAD'') = ''HEAD''
   \<and> Log (WebhookLine ''user/my-repo'' ''main'' ''abc123d'' ''john'')
       \<in> set (snd (webhookHandler example_config
            (example_system (Inr (example_webhook ''abc123def456''))
               (Inr \<lparr>StatusCode = 201, resp_Body = ''{}''\<rparr>))
            (example_request ''POST'' ''/webhook/my-pipeline'')))
   \<and> fst (webhookHandler example_config
            (example_system (Inr (example_webhook ''abc123def456''))
               (Inr \<lparr>StatusCode = 201, resp_Body = ''{}''\<rparr>))
            (example_request ''POST'' ''/webhook/my-pipeline''))
       = Returns (success_reply ''my-pipeline'' (example_webhook ''abc123def456''))
   \<and> reply_Code (success_reply ''my-pipeline'' (example_webhook ''abc123def456'')) = 200
   \<and> reply_member (success_reply ''my-pipeline'' (example_webhook ''abc123def456'')) ''commit''
       = Some (JString ''abc123d'')
   \<and> first_characters 7 ''abc123def456'' = ''abc123d''"
proof -
  let ?w = "example_webhook ''abc123def456''" and ?h = "example_webhook ''HEAD''"
  let ?sys = "\<lambda>w. example_system (Inr w) (Inr \<lparr>StatusCode = 201, resp_Body = ''{}''\<rparr>)"
  let ?r = "example_request ''POST'' ''/webhook/my-pipeline''"
  have r: "Method ?r = ''POST''" "URL_Path ?r = ''/webhook/'' @ ''my-pipeline''" "Body ?r = Inr ''{}''"
    by (simp_all add: example_request_def)
  have pl: "''my-pipeline'' \<noteq> []" "''my-pipeline'' \<noteq> ''webhook/''"
    by simp_all
  have dec: "json_Unmarshal (?sys w) ''{}'' = Inr w" for w
    by (simp add: example_system_def)
  have idw: "''abc123def456'' = HeadCommit_ID (HeadCommit ?w)"
    and idh: "''HEAD'' = HeadCommit_ID (HeadCommit ?h)"
    and fields: "Repository_FullName (Repository ?w) = ''user/my-repo''"
      "Pusher_Username (Pusher ?w) = ''john''"
    by (simp_all add: example_webhook_def)
  have br: "branch ?w = ''main''"
    by (simp add: branch_def example_webhook_def TrimPrefix_def HasPrefix_def)
  have run: "fst (webhookHandler example_config (?sys ?w) ?r)
       = Returns (success_reply ''my-pipeline'' ?w)"
    by (simp add: webhookHandler_def triggerBuild_def TrimPrefix_def HasPrefix_def
        example_request_def example_system_def example_config_def Let_def)
       (simp add: example_webhook_def)
  have code: "reply_Code (success_reply ''my-pipeline'' ?w) = 200"
    by (simp add: success_reply_def)
  have ascii: "\<forall>c \<in> set ''abc123def456''. of_char c < (128::nat)"
    by simp
  note long = commitShort_first_seven_bytes [OF r pl dec idw, of example_config]
  note small = commitShort_first_seven_bytes [OF r pl dec idh, of example_config]
  have a: "commitShort ?w = ''abc123d''"
    using long [THEN conjunct1] by simp
  have b: "commitShort ?h = ''HEAD''"
    using small [THEN conjunct2, THEN conjunct1] by simp
  have c: "Log (WebhookLine ''user/my-repo'' ''main'' ''abc123d'' ''john'')
             \<in> set (snd (webhookHandler example_config (?sys ?w) ?r))"
    using long [THEN conjunct2, THEN conjunct2, THEN conjunct1] by (simp add: a br fields)
  have d: "reply_member (success_reply ''my-pipeline'' ?w) ''commit'' = Some (JString ''abc123d'')"
    using long [THEN conjunct2, THEN conjunct2, THEN conjunct2, THEN conjunct1,
                THEN spec, of "success_reply ''my-pipeline'' ?w"] run code
    by (simp add: a json_text_ascii)
  have e: "first_characters 7 ''abc123def456'' = ''abc123d''"
    using long [THEN conjunct2, THEN conjunct2, THEN conjunct2, THEN conjunct2] ascii
    by (simp add: a between_def)
  from a b c run code d e show ?thesis by (intro conjI)
qed

text \<open>
  With characters the statement fails. A commit id of seven two-byte characters has
  at least 7 characters, and its first 7 characters are the id itself; the short form
  is its first 7 bytes, three characters and half of the fourth, and the reply carries
  the three characters and U+FFFD.
\<close>

theorem commitShort_characters_counterexample:
  "character_count seven_e_acute = 7
   \<and> first_characters 7 seven_e_acute = seven_e_acute
   \<and> commitShort (example_webhook seven_e_acute)
       = [CHR 0xC3, CHR 0xA9, CHR 0xC3, CHR 0xA9, CHR 0xC3, CHR 0xA9, CHR 0xC3]
   \<and> commitShort (example_webhook seven_e_acute) \<noteq> first_characters 7 seven_e_acute
   \<and> fst (webhookHandler example_config
            (example_system (Inr (example_webhook seven_e_acute))
               (Inr \<lparr>StatusCode = 201, resp_Body = ''{}''\<rparr>))
            (example_request ''POST'' ''/webhook/my-pipeline''))
       = Returns \<lparr>reply_Code = 200,
                  reply_Header = [(''Content-Type'', ''application/json'')],
                  reply_Body = Document (JObject
                    [(''branch'', JString ''main''),
                     (''commit'', JString [CHR 0xC3, CHR 0xA9, CHR 0xC3, CHR 0xA9, CHR 0xC3, CHR 0xA9,
                                           CHR 0xEF, CHR 0xBF, CHR 0xBD]),
                     (''message'', JString ''Build triggered successfully''),
                     (''pipeline'', JString ''my-pipeline''),
                     (''status'', JString ''success'')])\<rparr>"
proof -
  have chars: "character_count seven_e_acute = 7
      \<and> first_characters 7 seven_e_acute = seven_e_acute"
    by (simp add: seven_e_acute_def character_count_def between_def)
  have short: "commitShort (example_webhook seven_e_acute)
       = [CHR 0xC3, CHR 0xA9, CHR 0xC3, CHR 0xA9, CHR 0xC3, CHR 0xA9, CHR 0xC3]"
    by (simp add: commitShort_def example_webhook_def seven_e_acute_def)
  have differ: "commitShort (example_webhook seven_e_acute) \<noteq> first_characters 7 seven_e_acute"
    using chars short by (simp add: seven_e_acute_def)
  have repl: "json_text [CHR 0xC3, CHR 0xA9, CHR 0xC3, CHR 0xA9, CHR 0xC3, CHR 0xA9, CHR 0xC3]
       = [CHR 0xC3, CHR 0xA9, CHR 0xC3, CHR 0xA9, CHR 0xC3, CHR 0xA9, CHR 0xEF, CHR 0xBF, CHR 0xBD]"
    by (simp add: json_text_def between_def)
  have br: "branch (example_webhook seven_e_acute) = ''main''"
    by (simp add: branch_def example_webhook_def TrimPrefix_def HasPrefix_def)
  have len: "\<not> length seven_e_acute < 7"
    by (simp add: seven_e_acute_def)
  have run: "fst (webhookHandler example_config
            (example_system (Inr (example_webhook seven_e_acute))
               (Inr \<lparr>StatusCode = 201, resp_Body = ''{}''\<rparr>))
            (example_request ''POST'' ''/webhook/my-pipeline''))
       = Returns (success_reply ''my-pipeline'' (example_webhook seven_e_acute))"
    by (simp add: webhookHandler_def triggerBuild_def TrimPrefix_def HasPrefix_def
        example_request_def example_system_def example_config_def Let_def)
       (simp add: example_webhook_def len)
  have doc: "success_reply ''my-pipeline'' (example_webhook seven_e_acute)
       = \<lparr>reply_Code = 200,
          reply_Header = [(''Content-Type'', ''application/json'')],
          reply_Body = Document (JObject
            [(''branch'', JString ''main''),
             (''commit'', JString [CHR 0xC3, CHR 0xA9, CHR 0xC3, CHR 0xA9, CHR 0xC3, CHR 0xA9,
                                   CHR 0xEF, CHR 0xBF, CHR 0xBD]),
             (''message'', JString ''Build triggered successfully''),
             (''pipeline'', JString ''my-pipeline''),
             (''status'', JString ''success'')])\<rparr>"
    by (simp add: success_reply_def success_document short repl br json_text_ascii)
  from chars short differ run doc show ?thesis by simp
qed

section \<open>A short commit id\<close>

text \<open>
  Claim C1. The claim is that a POST with a decodable body and a downstream answer of
  200 or 201 ends with the success reply also for a commit id of fewer than 7 bytes.
  The handler guards its own short form, but the last log line of triggerBuild
  slices \<open>commit[:7]\<close> without a guard: for the commit id \<open>HEAD\<close> and the answer 201
  the outbound call is made, then the run panics and no reply is written.
\<close>

theorem short_commit_panics:
  "webhookHandler example_config
     (example_system (Inr (example_webhook ''HEAD'')) (Inr \<lparr>StatusCode = 201, resp_Body = ''{}''\<rparr>))
     (example_request ''POST'' ''/webhook/my-pipeline'')
   = (Panics ''runtime error: slice bounds out of range [:7] with length 4'',
      [Log (WebhookLine ''user/my-repo'' ''main'' ''HEAD'' ''john''),
       Outbound (outbound_request example_config
          ''https://api.buildkite.com/v2/organizations/my-org/pipelines/my-pipeline/builds''
          (Marshal (payload ''main'' ''HEAD'' ''Test commit'' (example_webhook ''HEAD''))))])"
  by (simp add: webhookHandler_def triggerBuild_def TrimPrefix_def HasPrefix_def branch_def
      commitShort_def build_url_def example_webhook_def example_system_def example_config_def
      example_request_def itoa_def digits.simps)

end
